theory Spec2Isabelle
  imports Complex_Main
begin

section \<open>Python values, errors and string helpers\<close>

text \<open>
  The logging module \<^verbatim>\<open>neupy/core/logs.py\<close> is dynamically typed: the attribute
  \<^verbatim>\<open>enable\<close> of a logger is documented as a bool, but \<^verbatim>\<open>VerboseProperty.__set__\<close>
  stores whatever value it is given there, and \<^verbatim>\<open>TerminalLogger.write\<close> only tests its
  truth value. Attribute values are therefore Python values, with Python's truth
  test and Python's \<^verbatim>\<open>==\<close> (where \<^verbatim>\<open>bool\<close> is a subclass of \<^verbatim>\<open>int\<close>).
  Strings are byte strings; the case conversion below covers the ASCII letters.
\<close>

datatype pyval = PNone | PBool bool | PInt int | PStr string

datatype pytype = TNoneType | TBool | TInt | TStr

fun type_of :: "pyval \<Rightarrow> pytype" where
  "type_of PNone = TNoneType"
| "type_of (PBool b) = TBool"
| "type_of (PInt i) = TInt"
| "type_of (PStr s) = TStr"

text \<open>\<^verbatim>\<open>isinstance(v, t)\<close>: the type itself, or \<^verbatim>\<open>bool\<close> for \<^verbatim>\<open>int\<close>.\<close>

definition isinstance :: "pyval \<Rightarrow> pytype \<Rightarrow> bool" where
  "isinstance v t = (type_of v = t \<or> (type_of v = TBool \<and> t = TInt))"

text \<open>The truth test of \<^verbatim>\<open>if x:\<close>.\<close>

fun truthy :: "pyval \<Rightarrow> bool" where
  "truthy PNone = False"
| "truthy (PBool b) = b"
| "truthy (PInt i) = (i \<noteq> 0)"
| "truthy (PStr s) = (s \<noteq> [])"

text \<open>Python's \<^verbatim>\<open>==\<close> on these values: \<^verbatim>\<open>True == 1\<close> and \<^verbatim>\<open>False == 0\<close> hold.\<close>

fun py_eq :: "pyval \<Rightarrow> pyval \<Rightarrow> bool" where
  "py_eq (PBool a) (PInt i) = ((if a then 1 else 0) = i)"
| "py_eq (PInt i) (PBool a) = (i = (if a then 1 else 0))"
| "py_eq a b = (a = b)"

text \<open>
  The exceptions the module can raise. \<open>ValueError\<close> carries the message the source
  builds. \<open>FormatValueError\<close> is the \<^verbatim>\<open>ValueError\<close> that \<^verbatim>\<open>str.format\<close> raises on a
  malformed template (its message depends on the interpreter version).
  \<open>UnmodelledFormat\<close> marks a replacement field that uses a feature of \<^verbatim>\<open>str.format\<close>
  outside this model (conversion, format specification, attribute or index access).
  \<open>ConfigurationError\<close> names the option and its accepted domain.
\<close>

datatype py_error =
    ValueError string
  | FormatValueError
  | KeyError string
  | IndexError
  | UnmodelledFormat
  | ConfigurationError string string

fun is_ValueError :: "py_error \<Rightarrow> bool" where
  "is_ValueError (ValueError m) = True"
| "is_ValueError FormatValueError = True"
| "is_ValueError e = False"

text \<open>\<^verbatim>\<open>str.upper\<close> on ASCII text.\<close>

definition upper_char :: "char \<Rightarrow> char" where
  "upper_char c =
     (case map_of (zip ''abcdefghijklmnopqrstuvwxyz'' ''ABCDEFGHIJKLMNOPQRSTUVWXYZ'') c of
        None \<Rightarrow> c
      | Some u \<Rightarrow> u)"

definition py_upper :: "string \<Rightarrow> string" where
  "py_upper s = map upper_char s"

text \<open>\<^verbatim>\<open>sep.join(xs)\<close>.\<close>

fun join :: "string \<Rightarrow> string list \<Rightarrow> string" where
  "join sep [] = []"
| "join sep [x] = x"
| "join sep (x # y # ys) = x @ sep @ join sep (y # ys)"

text \<open>\<^verbatim>\<open>str(v)\<close>.\<close>

fun nat_digits :: "nat \<Rightarrow> string" where
  "nat_digits n =
     (if n < 10 then [char_of (48 + n)]
      else nat_digits (n div 10) @ [char_of (48 + n mod 10)])"

declare nat_digits.simps [simp del]

fun py_str :: "pyval \<Rightarrow> string" where
  "py_str PNone = ''None''"
| "py_str (PBool b) = (if b then ''True'' else ''False'')"
| "py_str (PInt i) = (if i < 0 then CHR ''-'' # nat_digits (nat (- i)) else nat_digits (nat i))"
| "py_str (PStr s) = s"

subsection \<open>\<^verbatim>\<open>str.format\<close> with keyword arguments\<close>

text \<open>
  \<^verbatim>\<open>template.format(**kwargs)\<close>, scanned from the left as the interpreter does.
  \<^verbatim>\<open>{{\<close> and \<^verbatim>\<open>}}\<close> are the escaped braces; a single \<^verbatim>\<open>}\<close> in literal text and a field
  that is not closed raise \<^verbatim>\<open>ValueError\<close>. A field \<^verbatim>\<open>{name}\<close> is replaced by the value of
  the keyword argument \<^verbatim>\<open>name\<close> (the value is not scanned again), \<^verbatim>\<open>KeyError\<close> when there
  is none. A field \<^verbatim>\<open>{}\<close> or \<^verbatim>\<open>{N}\<close> asks for a positional argument; the callers here
  pass none, so it raises \<^verbatim>\<open>IndexError\<close> (an index of ten digits or more is outside the
  model). The second argument of the scanner is \<open>None\<close> in literal text and
  \<open>Some acc\<close> inside a field, \<open>acc\<close> holding the field's characters read so far in
  reverse.
\<close>

definition format_field :: "string \<Rightarrow> (string \<times> string) list \<Rightarrow> py_error + string" where
  "format_field name kwargs =
     (if list_all (\<lambda>c. c \<in> set ''0123456789'') name
      then (if length name \<le> 9 then Inl IndexError else Inl UnmodelledFormat)
      else case map_of kwargs name of
             None \<Rightarrow> Inl (KeyError name)
           | Some v \<Rightarrow> Inr v)"

fun format_scan :: "string \<Rightarrow> string option \<Rightarrow> (string \<times> string) list \<Rightarrow> py_error + string" where
  "format_scan [] None kwargs = Inr []"
| "format_scan [] (Some acc) kwargs = Inl FormatValueError"
| "format_scan (c # cs) None kwargs =
     (if c = CHR ''{'' then
        (case cs of
           [] \<Rightarrow> Inl FormatValueError
         | d # ds \<Rightarrow>
             if d = CHR ''{'' then map_sum id (\<lambda>r. CHR ''{'' # r) (format_scan ds None kwargs)
             else format_scan cs (Some []) kwargs)
      else if c = CHR ''}'' then
        (case cs of
           [] \<Rightarrow> Inl FormatValueError
         | d # ds \<Rightarrow>
             if d = CHR ''}'' then map_sum id (\<lambda>r. CHR ''}'' # r) (format_scan ds None kwargs)
             else Inl FormatValueError)
      else map_sum id (\<lambda>r. c # r) (format_scan cs None kwargs))"
| "format_scan (c # cs) (Some acc) kwargs =
     (if c = CHR ''}'' then
        (case format_field (rev acc) kwargs of
           Inl e \<Rightarrow> Inl e
         | Inr v \<Rightarrow> map_sum id (\<lambda>r. v @ r) (format_scan cs None kwargs))
      else if c \<in> set ''{[.:!'' then Inl UnmodelledFormat
      else format_scan cs (Some (c # acc)) kwargs)"

definition format_kw :: "string \<Rightarrow> (string \<times> string) list \<Rightarrow> py_error + string" where
  "format_kw template_str kwargs = format_scan template_str None kwargs"

section \<open>The terminal module and the logger\<close>

text \<open>
  \<^verbatim>\<open>from . import terminal\<close>: the code of the module with the text styles is missing.
  Its six functions used by the logger are parameters of the model.
\<close>

record terminal_module =
  gray :: "string \<Rightarrow> string"
  green :: "string \<Rightarrow> string"
  red :: "string \<Rightarrow> string"
  white :: "string \<Rightarrow> string"
  bold :: "string \<Rightarrow> string"
  underline :: "string \<Rightarrow> string"

text \<open>
  \<^verbatim>\<open>TerminalLogger\<close>: \<open>stdout\<close> is the text written to the stream so far.
\<close>

record terminal_logger =
  enable :: pyval
  template :: string
  stdout :: string

text \<open>The class attribute \<^verbatim>\<open>colors\<close>, in the order of the dict literal.\<close>

definition colors :: "terminal_module \<Rightarrow> (string \<times> (string \<Rightarrow> string)) list" where
  "colors T = [(''gray'', gray T), (''green'', green T), (''red'', red T), (''white'', white T)]"

text \<open>\<^verbatim>\<open>TerminalLogger.__init__(self, enable=True)\<close>; \<open>out\<close> is \<^verbatim>\<open>sys.stdout\<close>.\<close>

definition TerminalLogger_init :: "pyval \<Rightarrow> string \<Rightarrow> terminal_logger" where
  "TerminalLogger_init enable_arg out =
     \<lparr>enable = enable_arg, template = ''[{tag}] {text}'', stdout = out\<rparr>"

text \<open>
  A method returns the exception it raised, if any, and the logger as it is when the
  method returns or raises.
\<close>

type_synonym logger_result = "py_error option \<times> terminal_logger"

definition TerminalLogger_write :: "terminal_logger \<Rightarrow> string \<Rightarrow> logger_result" where
  "TerminalLogger_write L txt =
     (if truthy (enable L)
      then (None, L\<lparr>stdout := stdout L @ txt @ [CHR 0x0A]\<rparr>)
      else (None, L))"

definition TerminalLogger_newline :: "terminal_logger \<Rightarrow> logger_result" where
  "TerminalLogger_newline L = TerminalLogger_write L [CHR 0x0D]"

text \<open>
  The message of the \<^verbatim>\<open>ValueError\<close> of \<^verbatim>\<open>message\<close>:
  \<^verbatim>\<open>"Invalid color `{}`. Available colors: {}".format(color, ', '.join(self.colors.keys()))\<close>.
\<close>

definition invalid_color_message :: "terminal_module \<Rightarrow> string \<Rightarrow> string" where
  "invalid_color_message T color =
     ''Invalid color '' @ [CHR 0x60] @ color @ [CHR 0x60] @ ''. Available colors: ''
       @ join '', '' (map fst (colors T))"

definition TerminalLogger_message ::
  "terminal_module \<Rightarrow> terminal_logger \<Rightarrow> string \<Rightarrow> string \<Rightarrow> string \<Rightarrow> logger_result" where
  "TerminalLogger_message T L tag txt color =
     (case map_of (colors T) color of
        None \<Rightarrow> (Some (ValueError (invalid_color_message T color)), L)
      | Some colorizer \<Rightarrow>
          (let formated_tag = colorizer (py_upper tag) in
           case format_kw (template L) [(''tag'', formated_tag), (''text'', txt)] of
             Inl e \<Rightarrow> (Some e, L)
           | Inr message \<Rightarrow> TerminalLogger_write L message))"

definition TerminalLogger_title :: "terminal_module \<Rightarrow> terminal_logger \<Rightarrow> string \<Rightarrow> logger_result" where
  "TerminalLogger_title T L txt =
     (let bold_text = bold T txt in
      case format_kw ([CHR 0x0A] @ ''{text}'' @ [CHR 0x0A]) [(''text'', underline T bold_text)] of
        Inl e \<Rightarrow> (Some e, L)
      | Inr message \<Rightarrow> TerminalLogger_write L message)"

definition TerminalLogger_error :: "terminal_module \<Rightarrow> terminal_logger \<Rightarrow> string \<Rightarrow> logger_result" where
  "TerminalLogger_error T L txt = TerminalLogger_message T L ''ERROR'' txt ''red''"

definition TerminalLogger_warning :: "terminal_module \<Rightarrow> terminal_logger \<Rightarrow> string \<Rightarrow> logger_result" where
  "TerminalLogger_warning T L txt = TerminalLogger_message T L ''WARN'' txt ''red''"

text \<open>
  \<^verbatim>\<open>TerminalLogger.table\<close>. The inner loop \<^verbatim>\<open>widths[i] = max(len(str(cell_value)), widths[i])\<close>
  raises \<^verbatim>\<open>IndexError\<close> on a row with more cells than there are headers. The rendering
  itself is the library call \<^verbatim>\<open>tableprint.table(stringified_data, headers, width=widths,
  out=self.stdout)\<close>, a parameter that gives the text it writes to \<open>out\<close>.
\<close>

fun update_widths :: "nat \<Rightarrow> pyval list \<Rightarrow> nat list \<Rightarrow> py_error + nat list" where
  "update_widths i [] widths = Inr widths"
| "update_widths i (cell_value # cells) widths =
     (if i < length widths
      then update_widths (Suc i) cells (widths[i := max (length (py_str cell_value)) (widths ! i)])
      else Inl IndexError)"

fun table_rows ::
  "pyval list list \<Rightarrow> string list list \<Rightarrow> nat list \<Rightarrow> py_error + (string list list \<times> nat list)" where
  "table_rows [] stringified_data widths = Inr (stringified_data, widths)"
| "table_rows (row_values # rest) stringified_data widths =
     (case update_widths 0 row_values widths of
        Inl e \<Rightarrow> Inl e
      | Inr widths' \<Rightarrow> table_rows rest (stringified_data @ [map py_str row_values]) widths')"

definition TerminalLogger_table ::
  "(string list list \<Rightarrow> string list \<Rightarrow> nat list \<Rightarrow> string) \<Rightarrow>
   terminal_logger \<Rightarrow> pyval list list \<Rightarrow> string list \<Rightarrow> logger_result" where
  "TerminalLogger_table tableprint_table L data headers =
     (if \<not> truthy (enable L) then (None, L)
      else case table_rows data [] (map length headers) of
             Inl e \<Rightarrow> (Some e, L)
           | Inr (stringified_data, widths) \<Rightarrow>
               (None, L\<lparr>stdout := stdout L @ tableprint_table stringified_data headers widths\<rparr>))"

section \<open>Verbose and its property\<close>

text \<open>
  Modelled from the spec: the classes \<^verbatim>\<open>BaseProperty\<close> (\<^verbatim>\<open>neupy/core/properties.py\<close>) and
  \<^verbatim>\<open>Configurable\<close> (\<^verbatim>\<open>neupy/core/config.py\<close>) are imported by \<^verbatim>\<open>logs.py\<close>; their code
  is missing. The spec describes them as the typed configuration: a validated
  field with a get/set/validate contract, where an invalid value fails with a
  \<^verbatim>\<open>ConfigurationError\<close> naming the option and the accepted domain. So a property has a
  name, a default and an expected type; setting it validates the value and, when it is
  accepted, stores it in the instance's \<^verbatim>\<open>__dict__\<close>; reading it gives the stored value,
  or the default when none is stored.
\<close>

record property =
  pname :: string
  default_value :: pyval
  expected_type :: pytype

text \<open>A \<^verbatim>\<open>Verbose\<close> instance: its logger and its \<^verbatim>\<open>__dict__\<close> of option values.\<close>

record verbose_obj =
  logs :: terminal_logger
  attrs :: "string \<rightharpoonup> pyval"

type_synonym verbose_result = "py_error option \<times> verbose_obj"

text \<open>The name of a type, for the accepted domain in the error.\<close>

fun type_name :: "pytype \<Rightarrow> string" where
  "type_name TNoneType = ''NoneType''"
| "type_name TBool = ''bool''"
| "type_name TInt = ''int''"
| "type_name TStr = ''str''"

text \<open>
  Modelled from the spec: \<^verbatim>\<open>BaseProperty.__get__\<close> (missing), the read half of the
  get/set/validate contract: the stored value, or the declared default.
\<close>

definition BaseProperty_get :: "property \<Rightarrow> verbose_obj \<Rightarrow> pyval" where
  "BaseProperty_get P inst =
     (case attrs inst (pname P) of None \<Rightarrow> default_value P | Some v \<Rightarrow> v)"

text \<open>
  Modelled from the spec: \<^verbatim>\<open>BaseProperty.__set__\<close> (missing), the set and validate half of
  the contract: a value outside the accepted domain, here the expected type, fails with
  a \<^verbatim>\<open>ConfigurationError\<close> naming the option and the domain, and nothing is stored; an
  accepted value is stored.
\<close>

definition BaseProperty_set :: "property \<Rightarrow> verbose_obj \<Rightarrow> pyval \<Rightarrow> verbose_result" where
  "BaseProperty_set P inst v =
     (if isinstance v (expected_type P)
      then (None, inst\<lparr>attrs := (attrs inst)(pname P \<mapsto> v)\<rparr>)
      else (Some (ConfigurationError (pname P) (type_name (expected_type P))), inst))"

text \<open>
  From the source: \<^verbatim>\<open>verbose = VerboseProperty(default=False)\<close> with
  \<^verbatim>\<open>expected_type = bool\<close>, and
  \<^verbatim>\<open>
  def __set__(self, instance, value):
      instance.logs.enable = value
      return super(VerboseProperty, self).__set__(instance, value)
  \<close>
\<close>

definition VerboseProperty :: property where
  "VerboseProperty = \<lparr>pname = ''verbose'', default_value = PBool False, expected_type = TBool\<rparr>"

definition VerboseProperty_set :: "verbose_obj \<Rightarrow> pyval \<Rightarrow> verbose_result" where
  "VerboseProperty_set inst v =
     BaseProperty_set VerboseProperty (inst\<lparr>logs := (logs inst)\<lparr>enable := v\<rparr>\<rparr>) v"

text \<open>The attribute read \<^verbatim>\<open>instance.verbose\<close>.\<close>

definition Verbose_verbose :: "verbose_obj \<Rightarrow> pyval" where
  "Verbose_verbose inst = BaseProperty_get VerboseProperty inst"

text \<open>
  \<^verbatim>\<open>Verbose.__init__(self, **options)\<close>:
  \<^verbatim>\<open>
  self.logs = TerminalLogger()
  self.logs.enable = self.verbose
  super(Verbose, self).__init__(**options)
  \<close>
  \<^verbatim>\<open>Verbose\<close> declares the one option \<^verbatim>\<open>verbose\<close>; \<open>verbose_option\<close> is its keyword
  argument when it is given, which \<^verbatim>\<open>Configurable.__init__\<close> assigns to the attribute.
  \<open>out\<close> is \<^verbatim>\<open>sys.stdout\<close>.
\<close>

definition Verbose_init :: "pyval option \<Rightarrow> string \<Rightarrow> verbose_result" where
  "Verbose_init verbose_option out =
     (let self0 = \<lparr>logs = TerminalLogger_init (PBool True) out, attrs = Map.empty\<rparr>;
          self1 = self0\<lparr>logs := (logs self0)\<lparr>enable := Verbose_verbose self0\<rparr>\<rparr>
      in case verbose_option of
           None \<Rightarrow> (None, self1)
         | Some v \<Rightarrow> VerboseProperty_set self1 v)"

text \<open>The invariant \<^verbatim>\<open>logs.enable == verbose\<close>.\<close>

definition in_sync :: "verbose_obj \<Rightarrow> bool" where
  "in_sync inst = py_eq (enable (logs inst)) (Verbose_verbose inst)"

section \<open>A sample terminal module\<close>

text \<open>
  For the concrete checks below: styles that wrap the text in an ANSI escape sequence.
\<close>

definition ansi_style :: "string \<Rightarrow> string \<Rightarrow> string" where
  "ansi_style code s = [CHR 0x1B] @ ''['' @ code @ ''m'' @ s @ [CHR 0x1B] @ ''[0m''"

definition ansi_terminal :: terminal_module where
  "ansi_terminal =
     \<lparr>gray = ansi_style ''37'', green = ansi_style ''32'', red = ansi_style ''31'',
      white = ansi_style ''97'', bold = ansi_style ''1'', underline = ansi_style ''4''\<rparr>"

section \<open>The momentum optimizer\<close>

text \<open>
  Modelled from the spec: the optimizer (\<^verbatim>\<open>neupy.algorithms.Momentum\<close>, which the example
  script \<^verbatim>\<open>examples/mlp/mnist_mlp.py\<close> constructs) is missing. The spec gives
  the plain-momentum update of one Parameter \<open>p\<close> with gradient \<open>g\<close>, velocity \<open>v\<close>, learning
  rate \<open>eta\<close> and momentum coefficient \<open>mu\<close> as \<^verbatim>\<open>v <- mu*v - eta*g; p <- p + v\<close>, with
  the velocity zero at the start of a run and kept from one step to the next. The state
  of one scalar component of a Parameter is the pair \<open>(p, v)\<close>; a run takes the
  gradients of its steps in order. The arithmetic is exact (real numbers), as in the
  spec's analytic formula, not floating point.
\<close>

definition momentum_step :: "real \<Rightarrow> real \<Rightarrow> real \<Rightarrow> real \<times> real \<Rightarrow> real \<times> real" where
  "momentum_step eta mu g s =
     (case s of (p, v) \<Rightarrow> let v' = mu * v - eta * g in (p + v', v'))"

text \<open>
  Modelled from the spec: the steps of one training run (the training loop is missing),
  the velocity persisting from each step to the next.
\<close>

fun momentum_run :: "real \<Rightarrow> real \<Rightarrow> real list \<Rightarrow> real \<times> real \<Rightarrow> real \<times> real" where
  "momentum_run eta mu [] s = s"
| "momentum_run eta mu (g # gs) s = momentum_run eta mu gs (momentum_step eta mu g s)"

section \<open>Properties of the logger\<close>

lemma fmt_default:
  "format_kw ''[{tag}] {text}'' [(''tag'', a), (''text'', b)] = Inr (''['' @ a @ ''] '' @ b)"
  by (simp add: format_kw_def format_field_def)

lemma fmt_title:
  "format_kw ([CHR 0x0A] @ ''{text}'' @ [CHR 0x0A]) [(''text'', b)] = Inr ([CHR 0x0A] @ b @ [CHR 0x0A])"
  by (simp add: format_kw_def format_field_def)

text \<open>
  Claim C8, as the code has it. The names of the colours are gray, green, red and white.
  For every logger, whatever its template and its \<^verbatim>\<open>enable\<close>: a colour that is not one of
  them makes \<^verbatim>\<open>message\<close> raise the \<^verbatim>\<open>ValueError\<close> with the message about the invalid colour
  and leaves the logger, its output included, as it was; whenever \<^verbatim>\<open>message\<close> raises,
  nothing is written; and when \<^verbatim>\<open>enable\<close> is false nothing is written. For a logger
  whose template is the one \<^verbatim>\<open>__init__\<close> sets, \<^verbatim>\<open>message\<close> raises a \<^verbatim>\<open>ValueError\<close> only
  when the colour is not one of the four, and for each of the four colours it raises
  nothing and writes the text \<^verbatim>\<open>[TAG] text\<close> and a newline, \<^verbatim>\<open>TAG\<close> being the upper-cased tag
  passed through the colour's style, when \<^verbatim>\<open>enable\<close> is true.
\<close>

theorem TerminalLogger_message_contract:
  "map fst (colors T) = [''gray'', ''green'', ''red'', ''white'']
   \<and> (color \<notin> set (map fst (colors T)) \<longrightarrow>
        TerminalLogger_message T L tag txt color = (Some (ValueError (invalid_color_message T color)), L))
   \<and> (fst (TerminalLogger_message T L tag txt color) \<noteq> None \<longrightarrow>
        snd (TerminalLogger_message T L tag txt color) = L)
   \<and> (\<not> truthy (enable L) \<longrightarrow> snd (TerminalLogger_message T L tag txt color) = L)
   \<and> (template L = ''[{tag}] {text}'' \<longrightarrow>
        ((\<exists>e. fst (TerminalLogger_message T L tag txt color) = Some e \<and> is_ValueError e)
           = (color \<notin> set (map fst (colors T))))
      \<and> (\<forall>(c, colorizer) \<in> set (colors T).
           TerminalLogger_message T L tag txt c =
             (None, if truthy (enable L)
                    then L\<lparr>stdout := stdout L @ ''['' @ colorizer (py_upper tag) @ ''] '' @ txt @ [CHR 0x0A]\<rparr>
                    else L)))"
proof -
  have names: "map fst (colors T) = [''gray'', ''green'', ''red'', ''white'']"
    by (simp add: colors_def)
  have invalid: "color \<notin> set (map fst (colors T)) \<longrightarrow>
        TerminalLogger_message T L tag txt color = (Some (ValueError (invalid_color_message T color)), L)"
    by (auto simp add: TerminalLogger_message_def colors_def)
  have raised: "fst (TerminalLogger_message T L tag txt color) \<noteq> None \<longrightarrow>
        snd (TerminalLogger_message T L tag txt color) = L"
    by (auto simp add: TerminalLogger_message_def TerminalLogger_write_def Let_def
          split: option.splits sum.splits)
  have disabled: "\<not> truthy (enable L) \<longrightarrow> snd (TerminalLogger_message T L tag txt color) = L"
    by (auto simp add: TerminalLogger_message_def TerminalLogger_write_def Let_def
          split: option.splits sum.splits)
  have default: "template L = ''[{tag}] {text}'' \<longrightarrow>
        ((\<exists>e. fst (TerminalLogger_message T L tag txt color) = Some e \<and> is_ValueError e)
           = (color \<notin> set (map fst (colors T))))
      \<and> (\<forall>(c, colorizer) \<in> set (colors T).
           TerminalLogger_message T L tag txt c =
             (None, if truthy (enable L)
                    then L\<lparr>stdout := stdout L @ ''['' @ colorizer (py_upper tag) @ ''] '' @ txt @ [CHR 0x0A]\<rparr>
                    else L))"
    by (auto simp add: TerminalLogger_message_def colors_def fmt_default TerminalLogger_write_def)
  from names invalid raised disabled default show ?thesis
    by blast
qed

text \<open>
  The contract at concrete loggers with earlier output \<^verbatim>\<open>ready.\<close>: the colour blue is
  refused on a logger with the template \<^verbatim>\<open>{text}\<close>; the raise of \<^verbatim>\<open>str.format\<close> on the
  template \<^verbatim>\<open>{\<close> writes nothing; a disabled logger writes nothing; an enabled logger
  with the initial template writes the styled tag for the colour green.
\<close>

theorem TerminalLogger_message_contract_witness:
  "map fst (colors ansi_terminal) = [''gray'', ''green'', ''red'', ''white'']
   \<and> TerminalLogger_message ansi_terminal
         ((TerminalLogger_init (PBool True) ''ready.'')\<lparr>template := ''{text}''\<rparr>) ''info'' ''epoch 1'' ''blue''
       = (Some (ValueError (invalid_color_message ansi_terminal ''blue'')),
          \<lparr>enable = PBool True, template = ''{text}'', stdout = ''ready.''\<rparr>)
   \<and> snd (TerminalLogger_message ansi_terminal
         ((TerminalLogger_init (PBool True) ''ready.'')\<lparr>template := ''{''\<rparr>) ''info'' ''epoch 1'' ''green'')
       = \<lparr>enable = PBool True, template = ''{'', stdout = ''ready.''\<rparr>
   \<and> snd (TerminalLogger_message ansi_terminal
         ((TerminalLogger_init (PBool False) ''ready.'')\<lparr>template := ''{text}''\<rparr>) ''info'' ''epoch 1'' ''green'')
       = \<lparr>enable = PBool False, template = ''{text}'', stdout = ''ready.''\<rparr>
   \<and> template (TerminalLogger_init (PBool True) ''ready.'') = ''[{tag}] {text}''
   \<and> TerminalLogger_message ansi_terminal (TerminalLogger_init (PBool True) ''ready.'') ''info'' ''epoch 1'' ''green''
       = (None, \<lparr>enable = PBool True, template = ''[{tag}] {text}'',
            stdout = ''ready.['' @ [CHR 0x1B] @ ''[32mINFO'' @ [CHR 0x1B] @ ''[0m] epoch 1'' @ [CHR 0x0A]\<rparr>)"
proof -
  let ?on = "TerminalLogger_init (PBool True) ''ready.''"
  let ?off = "TerminalLogger_init (PBool False) ''ready.''"
  have blue: "''blue'' \<notin> set (map fst (colors ansi_terminal))"
    by (simp add: colors_def)
  have green: "(''green'', ansi_style ''32'') \<in> set (colors ansi_terminal)"
    by (simp add: colors_def ansi_terminal_def)
  have brace: "fst (TerminalLogger_message ansi_terminal (?on\<lparr>template := ''{''\<rparr>) ''info'' ''epoch 1'' ''green'')
                 \<noteq> None"
    by (simp add: TerminalLogger_message_def TerminalLogger_init_def colors_def format_kw_def)
  have off: "\<not> truthy (enable (?off\<lparr>template := ''{text}''\<rparr>))"
    by (simp add: TerminalLogger_init_def)
  have dflt: "template ?on = ''[{tag}] {text}''"
    by (simp add: TerminalLogger_init_def)
  from TerminalLogger_message_contract [of ansi_terminal "''blue''" "?on\<lparr>template := ''{text}''\<rparr>" "''info''" "''epoch 1''"] blue
  have 1: "TerminalLogger_message ansi_terminal (?on\<lparr>template := ''{text}''\<rparr>) ''info'' ''epoch 1'' ''blue''
       = (Some (ValueError (invalid_color_message ansi_terminal ''blue'')), ?on\<lparr>template := ''{text}''\<rparr>)"
    by blast
  from TerminalLogger_message_contract [of ansi_terminal "''green''" "?on\<lparr>template := ''{''\<rparr>" "''info''" "''epoch 1''"] brace
  have 2: "snd (TerminalLogger_message ansi_terminal (?on\<lparr>template := ''{''\<rparr>) ''info'' ''epoch 1'' ''green'')
       = ?on\<lparr>template := ''{''\<rparr>"
    by blast
  from TerminalLogger_message_contract [of ansi_terminal "''green''" "?off\<lparr>template := ''{text}''\<rparr>" "''info''" "''epoch 1''"] off
  have 3: "snd (TerminalLogger_message ansi_terminal (?off\<lparr>template := ''{text}''\<rparr>) ''info'' ''epoch 1'' ''green'')
       = ?off\<lparr>template := ''{text}''\<rparr>"
    by blast
  from TerminalLogger_message_contract [of ansi_terminal "''green''" ?on "''info''" "''epoch 1''"] dflt green
  have 4: "TerminalLogger_message ansi_terminal ?on ''info'' ''epoch 1'' ''green'' =
          (None, if truthy (enable ?on)
                 then ?on\<lparr>stdout := stdout ?on @ ''['' @ ansi_style ''32'' (py_upper ''info'') @ ''] '' @ ''epoch 1'' @ [CHR 0x0A]\<rparr>
                 else ?on)"
    by blast
  from TerminalLogger_message_contract [of ansi_terminal "''green''" ?on "''info''" "''epoch 1''"]
  have 5: "map fst (colors ansi_terminal) = [''gray'', ''green'', ''red'', ''white'']"
    by blast
  show ?thesis
    unfolding 1 2 3 4 using 5 dflt
    by (simp add: TerminalLogger_init_def ansi_style_def py_upper_def upper_char_def)
qed

text \<open>
  Without the two conditions on the half about valid colours the sentence fails. A
  disabled logger writes nothing for
  the valid colour green. A logger whose \<^verbatim>\<open>template\<close> attribute was set to \<^verbatim>\<open>{text}\<close> writes
  the text without a tag. A logger whose template is \<^verbatim>\<open>{\<close> raises the \<^verbatim>\<open>ValueError\<close> of
  \<^verbatim>\<open>str.format\<close> for the valid colour green.
\<close>

theorem TerminalLogger_message_counterexample:
  "TerminalLogger_message ansi_terminal (TerminalLogger_init (PBool False) ''ready.'') ''info'' ''epoch 1'' ''green''
     = (None, TerminalLogger_init (PBool False) ''ready.'')
   \<and> stdout (snd (TerminalLogger_message ansi_terminal
         ((TerminalLogger_init (PBool True) ''ready.'')\<lparr>template := ''{text}''\<rparr>) ''info'' ''epoch 1'' ''green''))
       = ''ready.epoch 1'' @ [CHR 0x0A]
   \<and> TerminalLogger_message ansi_terminal
         ((TerminalLogger_init (PBool True) ''ready.'')\<lparr>template := ''{''\<rparr>) ''info'' ''epoch 1'' ''green''
       = (Some FormatValueError, (TerminalLogger_init (PBool True) ''ready.'')\<lparr>template := ''{''\<rparr>)"
  by (simp add: TerminalLogger_message_def TerminalLogger_init_def colors_def ansi_terminal_def
        format_kw_def format_field_def TerminalLogger_write_def)

text \<open>
  Claim C9. When the \<^verbatim>\<open>enable\<close> attribute of a logger is \<^verbatim>\<open>False\<close>, each of \<^verbatim>\<open>write\<close>,
  \<^verbatim>\<open>newline\<close>, \<^verbatim>\<open>message\<close> with a valid colour, \<^verbatim>\<open>title\<close>, \<^verbatim>\<open>error\<close>, \<^verbatim>\<open>warning\<close> and \<^verbatim>\<open>table\<close>
  leaves the logger as it was: nothing is added to \<open>stdout\<close>, and \<open>enable\<close> and
  \<open>template\<close> keep their values.
\<close>

theorem disabled_logger_writes_nothing:
  "enable L = PBool False \<Longrightarrow>
     TerminalLogger_write L txt = (None, L)
   \<and> TerminalLogger_newline L = (None, L)
   \<and> (color \<in> set (map fst (colors T)) \<longrightarrow> snd (TerminalLogger_message T L tag txt color) = L)
   \<and> TerminalLogger_title T L txt = (None, L)
   \<and> snd (TerminalLogger_error T L txt) = L
   \<and> snd (TerminalLogger_warning T L txt) = L
   \<and> TerminalLogger_table tableprint_table L data headers = (None, L)"
  by (auto simp add: TerminalLogger_write_def TerminalLogger_newline_def TerminalLogger_message_def
        TerminalLogger_title_def TerminalLogger_error_def TerminalLogger_warning_def
        TerminalLogger_table_def fmt_title [simplified] colors_def split: sum.splits option.splits)

text \<open>The seven methods on a disabled logger with earlier output \<^verbatim>\<open>ready.\<close>.\<close>

theorem disabled_logger_writes_nothing_witness:
  "enable (TerminalLogger_init (PBool False) ''ready.'') = PBool False
   \<and> TerminalLogger_write (TerminalLogger_init (PBool False) ''ready.'') ''abc''
       = (None, \<lparr>enable = PBool False, template = ''[{tag}] {text}'', stdout = ''ready.''\<rparr>)
   \<and> TerminalLogger_newline (TerminalLogger_init (PBool False) ''ready.'')
       = (None, \<lparr>enable = PBool False, template = ''[{tag}] {text}'', stdout = ''ready.''\<rparr>)
   \<and> snd (TerminalLogger_message ansi_terminal (TerminalLogger_init (PBool False) ''ready.'') ''info'' ''abc'' ''gray'')
       = \<lparr>enable = PBool False, template = ''[{tag}] {text}'', stdout = ''ready.''\<rparr>
   \<and> TerminalLogger_title ansi_terminal (TerminalLogger_init (PBool False) ''ready.'') ''abc''
       = (None, \<lparr>enable = PBool False, template = ''[{tag}] {text}'', stdout = ''ready.''\<rparr>)
   \<and> snd (TerminalLogger_error ansi_terminal (TerminalLogger_init (PBool False) ''ready.'') ''abc'')
       = \<lparr>enable = PBool False, template = ''[{tag}] {text}'', stdout = ''ready.''\<rparr>
   \<and> snd (TerminalLogger_warning ansi_terminal (TerminalLogger_init (PBool False) ''ready.'') ''abc'')
       = \<lparr>enable = PBool False, template = ''[{tag}] {text}'', stdout = ''ready.''\<rparr>
   \<and> TerminalLogger_table (\<lambda>rows hs ws. concat (map concat rows))
         (TerminalLogger_init (PBool False) ''ready.'') [[PInt 1, PStr ''a'']] [''n'', ''s'']
       = (None, \<lparr>enable = PBool False, template = ''[{tag}] {text}'', stdout = ''ready.''\<rparr>)"
proof -
  let ?L = "TerminalLogger_init (PBool False) ''ready.''"
  have h: "enable ?L = PBool False"
    by (simp add: TerminalLogger_init_def)
  have c: "''gray'' \<in> set (map fst (colors ansi_terminal))"
    by (simp add: colors_def)
  have L: "?L = \<lparr>enable = PBool False, template = ''[{tag}] {text}'', stdout = ''ready.''\<rparr>"
    by (simp add: TerminalLogger_init_def)
  from disabled_logger_writes_nothing [OF h, of "''abc''" "''gray''" ansi_terminal "''info''"
      "\<lambda>rows hs ws. concat (map concat rows)" "[[PInt 1, PStr ''a'']]" "[''n'', ''s'']"] c h
  show ?thesis
    unfolding L by blast
qed

section \<open>Properties of Verbose\<close>

lemma py_eq_refl: "py_eq v v"
  by (cases v) simp_all

text \<open>
  A construction that succeeds gives an instance with \<^verbatim>\<open>logs.enable == verbose\<close>, and so
  does an assignment to \<^verbatim>\<open>verbose\<close> that is accepted.
\<close>

lemma Verbose_init_in_sync:
  "Verbose_init verbose_option out = (None, inst) \<Longrightarrow> in_sync inst"
  by (cases verbose_option)
    (auto simp add: Verbose_init_def VerboseProperty_set_def BaseProperty_set_def in_sync_def
       Verbose_verbose_def BaseProperty_get_def VerboseProperty_def TerminalLogger_init_def
       Let_def py_eq_refl split: if_splits)

lemma VerboseProperty_set_accepted_in_sync:
  "VerboseProperty_set inst v = (None, inst') \<Longrightarrow> in_sync inst'"
  by (auto simp add: VerboseProperty_set_def BaseProperty_set_def in_sync_def
       Verbose_verbose_def BaseProperty_get_def VerboseProperty_def py_eq_refl split: if_splits)

text \<open>
  Claim C10 says that every assignment to \<^verbatim>\<open>verbose\<close> preserves \<^verbatim>\<open>logs.enable == verbose\<close>.
  \<^verbatim>\<open>VerboseProperty.__set__\<close> writes the value to \<^verbatim>\<open>logs.enable\<close> before the value is
  validated. On an instance constructed without options, where the invariant holds,
  the assignment \<^verbatim>\<open>instance.verbose = 'yes'\<close> is refused, since \<^verbatim>\<open>expected_type\<close> is
  \<^verbatim>\<open>bool\<close>; it leaves \<^verbatim>\<open>logs.enable\<close> at \<^verbatim>\<open>'yes'\<close> while \<^verbatim>\<open>verbose\<close> still reads
  \<^verbatim>\<open>False\<close>, and the logger, whose owner is not verbose, now writes.
\<close>

theorem VerboseProperty_set_rejected_out_of_sync:
  "fst (Verbose_init None '''') = None
   \<and> in_sync (snd (Verbose_init None ''''))
   \<and> fst (VerboseProperty_set (snd (Verbose_init None '''')) (PStr ''yes''))
       = Some (ConfigurationError ''verbose'' ''bool'')
   \<and> enable (logs (snd (VerboseProperty_set (snd (Verbose_init None '''')) (PStr ''yes'')))) = PStr ''yes''
   \<and> Verbose_verbose (snd (VerboseProperty_set (snd (Verbose_init None '''')) (PStr ''yes''))) = PBool False
   \<and> \<not> in_sync (snd (VerboseProperty_set (snd (Verbose_init None '''')) (PStr ''yes'')))
   \<and> stdout (snd (TerminalLogger_write
        (logs (snd (VerboseProperty_set (snd (Verbose_init None '''')) (PStr ''yes'')))) ''x''))
       = ''x'' @ [CHR 0x0A]"
  by (simp add: Verbose_init_def VerboseProperty_set_def BaseProperty_set_def in_sync_def
       Verbose_verbose_def BaseProperty_get_def VerboseProperty_def TerminalLogger_init_def
       isinstance_def TerminalLogger_write_def)

section \<open>Properties of the momentum update\<close>

lemma momentum_velocity_from:
  "snd (momentum_run eta mu (replicate n g) (p, v)) = mu ^ n * v - eta * g * (\<Sum>k<n. mu ^ k)"
proof (induction n arbitrary: p v)
  case 0
  show ?case by simp
next
  case (Suc n)
  have "snd (momentum_run eta mu (replicate (Suc n) g) (p, v))
        = snd (momentum_run eta mu (replicate n g) (p + (mu * v - eta * g), mu * v - eta * g))"
    by (simp add: momentum_step_def Let_def)
  also have "\<dots> = mu ^ n * (mu * v - eta * g) - eta * g * (\<Sum>k<n. mu ^ k)"
    by (rule Suc.IH)
  also have "\<dots> = mu ^ Suc n * v - eta * g * (\<Sum>k<Suc n. mu ^ k)"
    by (simp add: algebra_simps)
  finally show ?case .
qed

text \<open>
  Claim C6. After \<open>n\<close> plain-momentum steps with the constant gradient \<open>g\<close>, from zero
  velocity, the velocity is \<open>- eta * g * (1 + mu + ... + mu ^ (n - 1))\<close>. The equation
  holds for every \<open>n\<close>, also \<open>n = 0\<close>, where the sum is empty and the velocity is zero,
  and for every \<open>mu\<close>.
\<close>

theorem momentum_velocity_geometric_sum:
  "snd (momentum_run eta mu (replicate n g) (p, 0)) = - eta * g * (\<Sum>k<n. mu ^ k)"
  by (simp add: momentum_velocity_from)

end
